theory Spec2Isabelle
  imports Main "HOL-Library.Sublist"
begin

section \<open>Python values seen by the timing framework\<close>

text \<open>
  A class is identified by its qualified name; \<open>cls_bases\<close> lists the qualified names of
  its proper superclasses (the rest of its method resolution order).  An exception
  instance carries its class, its arguments and its traceback.
\<close>

record py_class =
  cls_name :: string
  cls_bases :: "string list"

record py_exception =
  exc_cls :: py_class
  exc_args :: string
  exc_tb :: nat

text \<open>
  \<open>isinstance(value, (c1, ..., cn))\<close>: the value's class or one of its superclasses is
  among the given classes.  \<open>None\<close> is an instance of no exception class.
\<close>

definition isinstance :: "py_exception option \<Rightarrow> string list \<Rightarrow> bool" where
  "isinstance v classes =
     (case v of
        None \<Rightarrow> False
      | Some e \<Rightarrow> list_ex (\<lambda>c. c \<in> set (cls_name (exc_cls e) # cls_bases (exc_cls e))) classes)"

text \<open>
  The three arguments of \<open>__exit__\<close>.  \<open>sys_exc_info e\<close> is what \<open>sys.exc_info()\<close> returns
  inside an \<open>except\<close> block that caught \<open>e\<close>; \<open>no_exc\<close> is \<open>(None, None, None)\<close>.
\<close>

record exc_info =
  exc_type :: "py_class option"
  exc_value :: "py_exception option"
  traceback :: "nat option"

definition no_exc :: exc_info where
  "no_exc = \<lparr>exc_type = None, exc_value = None, traceback = None\<rparr>"

definition sys_exc_info :: "py_exception \<Rightarrow> exc_info" where
  "sys_exc_info e = \<lparr>exc_type = Some (exc_cls e), exc_value = Some e, traceback = Some (exc_tb e)\<rparr>"

section \<open>Status enumerations\<close>

definition QueryStatus_success :: string where "QueryStatus_success = ''success''"
definition QueryStatus_timeout :: string where "QueryStatus_timeout = ''timeout''"
definition QueryStatus_error :: string where "QueryStatus_error = ''error''"

definition TransactionStatus_commit :: string where "TransactionStatus_commit = ''commit''"
definition TransactionStatus_rollback :: string where "TransactionStatus_rollback = ''rollback''"
definition TransactionStatus_error :: string where "TransactionStatus_error = ''error''"

section \<open>Caller discovery\<close>

text \<open>
  A stack frame: \<open>f_globals_name\<close> is the result of \<open>f.f_globals.get("__name__")\<close>
  (\<open>None\<close> when the key is absent), \<open>f_code_co_name\<close> is \<open>f.f_code.co_name\<close> and \<open>f_back\<close>
  is the calling frame, \<open>None\<close> at the stack root.
\<close>

datatype frame =
  Frame (f_globals_name: "string option") (f_code_co_name: string) (f_back: "frame option")

text \<open>\<open>f.f_globals.get("__name__") or "?"\<close>: a missing or empty name reads as \<open>"?"\<close>.\<close>

definition frame_name :: "frame \<Rightarrow> string" where
  "frame_name f = (case f_globals_name f of None \<Rightarrow> ''?'' | Some n \<Rightarrow> if n = [] then ''?'' else n)"

text \<open>\<open>any(tuple(name.startswith(i) for i in ignores))\<close>\<close>

definition ignored :: "string list \<Rightarrow> string \<Rightarrow> bool" where
  "ignored ignores name = list_ex (\<lambda>i. prefix i name) ignores"

text \<open>The \<open>while\<close> loop of \<open>_discover_caller\<close>, with its two variables \<open>f\<close> and \<open>name\<close>.\<close>

function discover_loop :: "string list \<Rightarrow> frame \<Rightarrow> string \<Rightarrow> frame \<times> string" where
  "discover_loop ignores f name =
     (if ignored ignores name then
        (case f_back f of
           None \<Rightarrow> (f, ''?'')
         | Some b \<Rightarrow> discover_loop ignores b (frame_name b))
      else (f, name))"
  by pat_completeness auto
termination
proof (relation "measure (\<lambda>(ignores, f, name). size f)")
  show "wf (measure (\<lambda>(ignores, f, name). size f))" by simp
next
  fix ignores :: "string list" and f :: frame and name :: string and b :: frame
  assume "f_back f = Some b"
  then have "size b < size f" by (cases f) simp
  then show "((ignores, b, frame_name b), (ignores, f, name)) \<in> measure (\<lambda>(ignores, f, name). size f)"
    by simp
qed

declare discover_loop.simps [simp del]

text \<open>The name of the module that defines \<open>_discover_caller\<close> (its \<open>__name__\<close>).\<close>

definition this_module :: string where
  "this_module = ''app.commons.timing.database''"

text \<open>The list \<open>ignores\<close> that \<open>_discover_caller\<close> builds (\<open>additional_ignores or []\<close>).\<close>

definition ignores_of :: "string list option \<Rightarrow> string list" where
  "ignores_of additional_ignores =
     [this_module, ''app.commons.tracing'', ''contextlib'']
     @ (case additional_ignores of None \<Rightarrow> [] | Some l \<Rightarrow> l)"

text \<open>
  \<open>_discover_caller(additional_ignores)\<close>; the argument \<open>f0\<close> is the frame that
  \<open>sys._getframe()\<close> returns, that is the frame of \<open>_discover_caller\<close> itself.
\<close>

definition discover_caller :: "string list option \<Rightarrow> frame \<Rightarrow> frame \<times> string" where
  "discover_caller additional_ignores f0 =
     (let ignores = ignores_of additional_ignores
      in discover_loop ignores f0 (frame_name f0))"

text \<open>The frames on the stack, walking outward from a frame to the stack root.\<close>

function frames_from :: "frame \<Rightarrow> frame list" where
  "frames_from f = f # (case f_back f of None \<Rightarrow> [] | Some b \<Rightarrow> frames_from b)"
  by pat_completeness auto
termination
proof (relation "measure size")
  show "wf (measure (size :: frame \<Rightarrow> nat))" by simp
next
  fix f b :: frame
  assume "f_back f = Some b"
  then have "size b < size f" by (cases f) simp
  then show "(b, f) \<in> measure size" by simp
qed

declare frames_from.simps [simp del]

section \<open>Timers\<close>

text \<open>
  The object a timer measures, as the processors see it: its \<open>database_name\<close> and
  \<open>instance_name\<close> attributes, \<open>None\<close> for an attribute the object does not have.
  \<open>isinstance(x, Database)\<close> holds when both attributes exist.
\<close>

record target =
  database_name :: "string option"
  instance_name :: "string option"

definition is_Database :: "target \<Rightarrow> bool" where
  "is_Database d = (database_name d \<noteq> None \<and> instance_name d \<noteq> None)"

text \<open>
  \<open>QueryTimer\<close> and its subclasses \<open>ExecuteTimer\<close> and \<open>TransactionTimer\<close> share their
  attributes; \<open>timer_class\<close> records the class of the instance, which selects the
  \<open>__enter__\<close> and \<open>process_result\<close> that run.  \<open>start_time\<close> and \<open>end_time\<close> are the
  attributes of \<open>tracing.BaseTimer\<close>.
\<close>

datatype timer_class = QueryTimer_class | ExecuteTimer_class | TransactionTimer_class

record QueryTimer =
  timer_class :: timer_class
  start_time :: "int option"
  end_time :: "int option"
  database :: target
  additional_ignores :: "string list option"
  calling_function_name :: string
  calling_module_name :: string
  stack_frame :: "frame option"
  request_status :: string
  exception_name :: string

text \<open>
  \<open>QueryTimer.__init__\<close>, inherited by both subclasses.  The class attribute
  \<open>request_status\<close> is \<open>QueryStatus.success\<close>, overridden by \<open>TransactionTimer\<close> with
  \<open>TransactionStatus.commit\<close>; \<open>exception_name\<close> is \<open>""\<close> and \<open>stack_frame\<close> is \<open>None\<close>.
\<close>

definition QueryTimer_init ::
  "timer_class \<Rightarrow> target \<Rightarrow> string \<Rightarrow> string \<Rightarrow> string list option \<Rightarrow> QueryTimer" where
  "QueryTimer_init cls db function_name module_name' ignores =
     \<lparr>timer_class = cls, start_time = None, end_time = None, database = db,
      additional_ignores = ignores,
      calling_function_name = function_name, calling_module_name = module_name',
      stack_frame = None,
      request_status =
        (case cls of TransactionTimer_class \<Rightarrow> TransactionStatus_commit | _ \<Rightarrow> QueryStatus_success),
      exception_name = []\<rparr>"

text \<open>
  Modelled from the spec: \<open>BaseTimer.__enter__\<close> of \<open>app.commons.tracing\<close>, which is not
  among the sources ("enter(): record start timestamp; return self for chaining").  The
  argument \<open>now\<close> is the clock reading.
\<close>

definition BaseTimer_enter :: "int \<Rightarrow> QueryTimer \<Rightarrow> QueryTimer" where
  "BaseTimer_enter now self = self\<lparr>start_time := Some now\<rparr>"

text \<open>
  Modelled from the spec: \<open>BaseTimer.__exit__\<close> of \<open>app.commons.tracing\<close>, which is not
  among the sources ("exit(exception_info): record end timestamp unconditionally").
\<close>

definition BaseTimer_exit :: "int \<Rightarrow> exc_info \<Rightarrow> QueryTimer \<Rightarrow> QueryTimer" where
  "BaseTimer_exit now ei self = self\<lparr>end_time := Some now\<rparr>"

text \<open>
  Modelled from the spec: \<open>BaseTimer.process_result\<close> of \<open>app.commons.tracing\<close>, which is
  not among the sources.  The spec gives \<open>process_result\<close> an effect for multi-phase
  timers only, so the base method leaves the timer as it is.
\<close>

definition BaseTimer_process_result :: "string \<Rightarrow> QueryTimer \<Rightarrow> QueryTimer" where
  "BaseTimer_process_result result self = self"

text \<open>The exception classes that \<open>QueryTimer.__exit__\<close> knows as timeouts.\<close>

definition known_timeout_errors :: "string list" where
  "known_timeout_errors =
     [''asyncio.TimeoutError'', ''asyncio.CancelledError'',
      ''concurrent.futures.TimeoutError'', ''QueryCanceledError'']"

text \<open>
  \<open>QueryTimer.__exit__(exc_type, exc_value, traceback)\<close>.  The function
  \<open>format_exc_name\<close> of \<open>app.commons.timing.base\<close> is not among the sources and is the
  parameter \<open>fmt\<close>.  The result is the returned value and the updated timer.
\<close>

definition QueryTimer_exit ::
  "(py_class \<Rightarrow> string) \<Rightarrow> int \<Rightarrow> exc_info \<Rightarrow> QueryTimer \<Rightarrow> bool \<times> QueryTimer" where
  "QueryTimer_exit fmt now ei self0 =
     (let self1 = BaseTimer_exit now ei self0 in
      case exc_type ei of
        None \<Rightarrow> (False, self1)
      | Some ty \<Rightarrow>
          (let self2 = self1\<lparr>exception_name := fmt ty\<rparr> in
           if request_status self2 \<noteq> [] \<and> request_status self2 \<noteq> QueryStatus_success
           then (False, self2)
           else if isinstance (exc_value ei) known_timeout_errors
           then (False, self2\<lparr>request_status := QueryStatus_timeout\<rparr>)
           else (False, self2\<lparr>request_status := QueryStatus_error\<rparr>)))"

text \<open>\<open>ExecuteTimer.__enter__\<close>; \<open>f0\<close> is the frame in which \<open>_discover_caller\<close> runs.\<close>

definition ExecuteTimer_enter :: "int \<Rightarrow> frame \<Rightarrow> QueryTimer \<Rightarrow> QueryTimer" where
  "ExecuteTimer_enter now f0 self0 =
     (let self1 = BaseTimer_enter now self0;
          (fr, name) = discover_caller (additional_ignores self1) f0;
          self2 = self1\<lparr>stack_frame := Some fr, calling_module_name := name\<rparr>
      in self2\<lparr>calling_function_name := f_code_co_name fr\<rparr>)"

text \<open>\<open>TransactionTimer.process_result\<close>\<close>

definition TransactionTimer_process_result :: "string \<Rightarrow> QueryTimer \<Rightarrow> QueryTimer" where
  "TransactionTimer_process_result result self =
     BaseTimer_process_result result (self\<lparr>request_status := result\<rparr>)"

text \<open>Method lookup on a timer instance: \<open>timer.__enter__()\<close> and \<open>timer.process_result(result)\<close>.\<close>

definition timer_enter :: "int \<Rightarrow> frame \<Rightarrow> QueryTimer \<Rightarrow> QueryTimer" where
  "timer_enter now f0 self =
     (case timer_class self of
        QueryTimer_class \<Rightarrow> BaseTimer_enter now self
      | ExecuteTimer_class \<Rightarrow> ExecuteTimer_enter now f0 self
      | TransactionTimer_class \<Rightarrow> ExecuteTimer_enter now f0 self)"

definition timer_process_result :: "string \<Rightarrow> QueryTimer \<Rightarrow> QueryTimer" where
  "timer_process_result result self =
     (case timer_class self of
        QueryTimer_class \<Rightarrow> BaseTimer_process_result result self
      | ExecuteTimer_class \<Rightarrow> BaseTimer_process_result result self
      | TransactionTimer_class \<Rightarrow> TransactionTimer_process_result result self)"

section \<open>The transaction timing manager\<close>

text \<open>
  The configuration of a \<open>TransactionTimingManager\<close>: the attributes that
  \<open>QueryTimingManager.__init__\<close> sets.  Its processors are the class attribute
  \<open>[log_transaction_timing, stat_transaction_timing]\<close>.
\<close>

record TransactionTimingManager =
  message :: string
  manager_additional_ignores :: "string list"
  manager_calling_module_name :: string
  manager_calling_function_name :: string

definition TransactionTimingManager_init :: "string \<Rightarrow> TransactionTimingManager" where
  "TransactionTimingManager_init msg =
     \<lparr>message = msg, manager_additional_ignores = [''app.commons.database''],
      manager_calling_module_name = [], manager_calling_function_name = []\<rparr>"

text \<open>\<open>TransactionTimingManager.create_tracker\<close>; \<open>obj\<close> is the object being measured.\<close>

definition create_tracker :: "TransactionTimingManager \<Rightarrow> target \<Rightarrow> QueryTimer" where
  "create_tracker self obj =
     QueryTimer_init TransactionTimer_class obj
       (manager_calling_function_name self) (manager_calling_module_name self)
       (Some (manager_additional_ignores self))"

text \<open>
  An attribute of a Python object either does not exist or holds a value.  Timers are
  objects shared between the entity and its resource stack, so they live in a store and
  are named by their address.
\<close>

datatype 'a attr = Missing | Attr 'a

text \<open>
  What a \<open>contextlib.ExitStack\<close> holds here: the \<open>__exit__\<close> of an entered timer and the
  exit of the breadcrumb context that carries the transaction name.  The list is the
  stack, most recently pushed entry first.
\<close>

datatype exit_callback =
    ExitTracker nat
  | ExitBreadcrumb string

type_synonym ExitStack = "exit_callback list"

text \<open>
  What reaches the outside: the transaction name entering and leaving the ambient
  breadcrumb context, the record handed to the logger (its label and the timer it is
  built from) and the observation handed to the stats client.
\<close>

datatype event =
    BreadcrumbEnter string
  | BreadcrumbExit string
  | LogTransactionTiming string QueryTimer
  | StatTransactionTiming QueryTimer


text \<open>
  The state a phase works on: the attributes \<open>tracker\<close> and \<open>stack\<close> of the entity
  \<open>obj\<close> (the \<open>TrackedTransaction\<close> protocol) and its database identity, the store of
  timers, the clock, the frame in which caller discovery would run, and the events
  emitted so far.
\<close>

record state =
  tracker :: "nat option attr"
  stack :: "ExitStack option attr"
  obj_database :: target
  timers :: "nat \<Rightarrow> QueryTimer"
  next_timer :: nat
  perf_counter :: int
  current_frame :: frame
  events :: "event list"

text \<open>\<open>isinstance(obj, TrackedTransaction)\<close>: both protocol attributes exist.\<close>

definition isinstance_TrackedTransaction :: "state \<Rightarrow> bool" where
  "isinstance_TrackedTransaction s = (tracker s \<noteq> Missing \<and> stack s \<noteq> Missing)"

definition AttributeError :: "string \<Rightarrow> py_exception" where
  "AttributeError name =
     \<lparr>exc_cls = \<lparr>cls_name = ''AttributeError'',
                 cls_bases = [''Exception'', ''BaseException'', ''object'']\<rparr>,
      exc_args = name, exc_tb = 0\<rparr>"

text \<open>
  \<open>log_transaction_timing\<close> and \<open>stat_transaction_timing\<close>: nothing for a timer whose
  \<open>database\<close> is not a \<open>Database\<close>, one record or observation otherwise.  The logger
  and the stats client are outside the program; they are taken to accept what they are
  given without raising.
\<close>

definition log_transaction_timing :: "TransactionTimingManager \<Rightarrow> QueryTimer \<Rightarrow> state \<Rightarrow> state" where
  "log_transaction_timing tracker' timer s =
     (if \<not> is_Database (database timer) then s
      else s\<lparr>events := events s @ [LogTransactionTiming (message tracker') timer]\<rparr>)"

definition stat_transaction_timing :: "TransactionTimingManager \<Rightarrow> QueryTimer \<Rightarrow> state \<Rightarrow> state" where
  "stat_transaction_timing tracker' timer s =
     (if \<not> is_Database (database timer) then s
      else s\<lparr>events := events s @ [StatTransactionTiming timer]\<rparr>)"

text \<open>
  Modelled from the spec: the processor run of \<open>tracing.TimingManager\<close>, which is not
  among the sources ("synchronously invokes each registered Processor with (manager,
  timer) in registration order").
\<close>

definition process_tracker :: "TransactionTimingManager \<Rightarrow> QueryTimer \<Rightarrow> state \<Rightarrow> state" where
  "process_tracker self timer s =
     stat_transaction_timing self timer (log_transaction_timing self timer s)"

text \<open>
  Modelled from the spec: \<open>TimingManager._start_tracker\<close> of \<open>app.commons.tracing\<close>, which
  is not among the sources.  The start phase "allocates a fresh resource-stack scope,
  creates and enters a Timer attached to the entity"; the timer is entered on the stack it
  is given, so that the unwinding of the stack "with the given exception info" goes
  through "the Timer's normal exit path".  The result is the address of the new timer, the
  stack and the state.
\<close>

definition start_tracker ::
  "TransactionTimingManager \<Rightarrow> ExitStack \<Rightarrow> state \<Rightarrow> nat \<times> ExitStack \<times> state" where
  "start_tracker self st s =
     (let r = next_timer s;
          t0 = create_tracker self (obj_database s);
          t1 = timer_enter (perf_counter s) (current_frame s) t0;
          st1 = ExitTracker r # st
      in (r, st1, s\<lparr>timers := (timers s)(r := t1), next_timer := Suc r\<rparr>))"

text \<open>
  Modelled from the spec: \<open>TimingManager._exit_tracker\<close> of \<open>app.commons.tracing\<close>, which
  is not among the sources.  A terminal phase "sets the Timer's status ... via
  process_result, runs transaction Processors, then unconditionally unwinds the
  resource-stack scope": the first two steps are \<open>_exit_tracker\<close>, the third is the phase's
  own call of \<open>obj.stack.__exit__\<close>.
\<close>

definition exit_tracker :: "TransactionTimingManager \<Rightarrow> nat \<Rightarrow> string \<Rightarrow> state \<Rightarrow> state" where
  "exit_tracker self r result s =
     (let s1 = s\<lparr>timers := (timers s)(r := timer_process_result result (timers s r))\<rparr>
      in process_tracker self (timers s1 r) s1)"

text \<open>
  One entry of the stack being called with the exception details; the result says
  whether the entry asked to suppress the exception.
\<close>

fun run_exit_callback ::
  "(py_class \<Rightarrow> string) \<Rightarrow> exc_info \<Rightarrow> exit_callback \<Rightarrow> state \<Rightarrow> bool \<times> state" where
  "run_exit_callback fmt ei (ExitTracker r) s =
     (case QueryTimer_exit fmt (perf_counter s) ei (timers s r) of
        (handled, t) \<Rightarrow> (handled, s\<lparr>timers := (timers s)(r := t)\<rparr>))"
| "run_exit_callback fmt ei (ExitBreadcrumb name) s =
     (False, s\<lparr>events := events s @ [BreadcrumbExit name]\<rparr>)"

text \<open>
  \<open>ExitStack.__exit__\<close>: the entries are popped and called, last pushed first; once an
  entry suppresses the exception, the remaining ones see no exception.
\<close>

fun unwind :: "(py_class \<Rightarrow> string) \<Rightarrow> exc_info \<Rightarrow> ExitStack \<Rightarrow> state \<Rightarrow> state" where
  "unwind fmt ei [] s = s"
| "unwind fmt ei (cb # cbs) s =
     (case run_exit_callback fmt ei cb s of
        (suppressed, s') \<Rightarrow> unwind fmt (if suppressed then no_exc else ei) cbs s')"

text \<open>\<open>obj.stack.__exit__(...)\<close> on the stack object \<open>st\<close>: afterwards the stack is empty.\<close>

definition ExitStack_exit :: "(py_class \<Rightarrow> string) \<Rightarrow> exc_info \<Rightarrow> ExitStack \<Rightarrow> state \<Rightarrow> state" where
  "ExitStack_exit fmt ei st s = (unwind fmt ei st s)\<lparr>stack := Attr (Some [])\<rparr>"

text \<open>
  \<open>TransactionTimingManager.start\<close>.  The breadcrumb context manager is code of
  \<open>app.commons.tracing\<close>, which is not among the sources.  Modelled from the spec: it is
  "a reversible context mutation that records the operation's discovered name as the
  active transaction name", seen here through the event of its entry and, when the stack
  unwinds, the event of its exit; its exit neither raises nor suppresses an exception.
\<close>

definition start :: "TransactionTimingManager \<Rightarrow> state \<Rightarrow> nat \<times> state" where
  "start self s =
     (let (r, st, s1) = start_tracker self [] s;
          name = calling_function_name (timers s1 r);
          s2 = s1\<lparr>events := events s1 @ [BreadcrumbEnter name]\<rparr>
      in (r, s2\<lparr>tracker := Attr (Some r), stack := Attr (Some (ExitBreadcrumb name # st))\<rparr>))"

text \<open>
  The three terminal phases.  Reading an attribute that the object does not have raises
  \<open>AttributeError\<close>; the result is the raised exception or \<open>None\<close>, and the state.
\<close>

definition commit ::
  "(py_class \<Rightarrow> string) \<Rightarrow> TransactionTimingManager \<Rightarrow> state \<Rightarrow> (py_exception + unit) \<times> state" where
  "commit fmt self s =
     (case tracker s of
        Missing \<Rightarrow> (Inl (AttributeError ''tracker''), s)
      | Attr tr \<Rightarrow>
          (let s1 = (case tr of None \<Rightarrow> s | Some r \<Rightarrow> exit_tracker self r ''commit'' s) in
           case stack s1 of
             Missing \<Rightarrow> (Inl (AttributeError ''stack''), s1)
           | Attr None \<Rightarrow> (Inr (), s1)
           | Attr (Some st) \<Rightarrow> (Inr (), ExitStack_exit fmt no_exc st s1)))"

definition rollback ::
  "(py_class \<Rightarrow> string) \<Rightarrow> TransactionTimingManager \<Rightarrow> exc_info \<Rightarrow> state \<Rightarrow>
     (py_exception + unit) \<times> state" where
  "rollback fmt self ei s =
     (case tracker s of
        Missing \<Rightarrow> (Inl (AttributeError ''tracker''), s)
      | Attr tr \<Rightarrow>
          (let s1 = (case tr of None \<Rightarrow> s | Some r \<Rightarrow> exit_tracker self r ''rollback'' s) in
           case stack s1 of
             Missing \<Rightarrow> (Inl (AttributeError ''stack''), s1)
           | Attr None \<Rightarrow> (Inr (), s1)
           | Attr (Some st) \<Rightarrow> (Inr (), ExitStack_exit fmt ei st s1)))"

definition error ::
  "(py_class \<Rightarrow> string) \<Rightarrow> TransactionTimingManager \<Rightarrow> exc_info \<Rightarrow> state \<Rightarrow>
     (py_exception + unit) \<times> state" where
  "error fmt self ei s =
     (case tracker s of
        Missing \<Rightarrow> (Inl (AttributeError ''tracker''), s)
      | Attr tr \<Rightarrow>
          (let s1 = (case tr of None \<Rightarrow> s | Some r \<Rightarrow> exit_tracker self r ''error'' s) in
           case stack s1 of
             Missing \<Rightarrow> (Inl (AttributeError ''stack''), s1)
           | Attr None \<Rightarrow> (Inr (), s1)
           | Attr (Some st) \<Rightarrow> (Inr (), ExitStack_exit fmt ei st s1)))"

text \<open>
  The wrapped operation: it returns a value or raises, and may change the state.  The
  \<open>except\<close> blocks of the wrappers call the error phase and re-raise; an exception raised
  by the error phase itself replaces the one being handled.
\<close>

type_synonym 'r operation = "state \<Rightarrow> (py_exception + 'r) \<times> state"

definition error_and_reraise ::
  "(py_class \<Rightarrow> string) \<Rightarrow> TransactionTimingManager \<Rightarrow> py_exception \<Rightarrow> state \<Rightarrow>
     (py_exception + 'r) \<times> state" where
  "error_and_reraise fmt self e s =
     (case error fmt self (sys_exc_info e) s of
        (Inl e', s') \<Rightarrow> (Inl e', s')
      | (Inr u, s') \<Rightarrow> (Inl e, s'))"

text \<open>The wrapper that \<open>track_start\<close> returns, applied to the object \<open>args[0]\<close>.\<close>

definition track_start ::
  "(py_class \<Rightarrow> string) \<Rightarrow> TransactionTimingManager \<Rightarrow> 'r operation \<Rightarrow> 'r operation" where
  "track_start fmt self func s =
     (let s1 = (if isinstance_TrackedTransaction s then snd (start self s) else s) in
      case func s1 of
        (Inr result, s2) \<Rightarrow> (Inr result, s2)
      | (Inl e, s2) \<Rightarrow> error_and_reraise fmt self e s2)"

text \<open>The wrapper that \<open>track_commit\<close> returns; the call of \<open>commit\<close> is inside the \<open>try\<close>.\<close>

definition track_commit ::
  "(py_class \<Rightarrow> string) \<Rightarrow> TransactionTimingManager \<Rightarrow> 'r operation \<Rightarrow> 'r operation" where
  "track_commit fmt self func s =
     (case func s of
        (Inl e, s1) \<Rightarrow> error_and_reraise fmt self e s1
      | (Inr result, s1) \<Rightarrow>
          if isinstance_TrackedTransaction s1 then
            (case commit fmt self s1 of
               (Inl e, s2) \<Rightarrow> error_and_reraise fmt self e s2
             | (Inr u, s2) \<Rightarrow> (Inr result, s2))
          else (Inr result, s1))"

section \<open>The awaitable Kafka producer\<close>

text \<open>
  An \<open>asyncio\<close> future is pending until it is given a result or an exception, or is
  cancelled.  The error that the client reports and the delivered message are opaque
  values; a callback receives \<open>None\<close> for either when there is none.
\<close>

type_synonym kafka_error = string
type_synonym kafka_message = string

datatype future_state =
    Pending
  | Finished_result "kafka_message option"
  | Finished_exception py_exception
  | Cancelled

text \<open>
  A callback handed to the event loop with \<open>call_soon_threadsafe\<close>: the bound method
  \<open>set_result\<close> or \<open>set_exception\<close> of the future at the given address, with its argument.
\<close>

datatype scheduled_call =
    Call_set_result nat "kafka_message option"
  | Call_set_exception nat py_exception

text \<open>
  The producer and its event loop: the flag \<open>_cancelled\<close>, the futures of the loop by
  address, the loop's queue of handed-over callbacks (oldest first), and the messages
  given to the client, each with the future that its \<open>on_delivery\<close> callback \<open>ack\<close> has
  captured.
\<close>

record KafkaMessageProducer =
  cancelled :: bool
  futures :: "nat \<Rightarrow> future_state"
  next_future :: nat
  loop_ready :: "scheduled_call list"
  submitted :: "(string \<times> string \<times> nat) list"

definition KafkaException :: "kafka_error \<Rightarrow> py_exception" where
  "KafkaException err =
     \<lparr>exc_cls = \<lparr>cls_name = ''confluent_kafka.cimpl.KafkaException'',
                 cls_bases = [''Exception'', ''BaseException'', ''object'']\<rparr>,
      exc_args = err, exc_tb = 0\<rparr>"

definition InvalidStateError :: py_exception where
  "InvalidStateError =
     \<lparr>exc_cls = \<lparr>cls_name = ''asyncio.InvalidStateError'',
                 cls_bases = [''Exception'', ''BaseException'', ''object'']\<rparr>,
      exc_args = [], exc_tb = 0\<rparr>"

text \<open>
  The closure \<open>ack(err, msg)\<close> that \<open>produce\<close> defines over its future \<open>result\<close>.  The
  test \<open>if err\<close> separates \<open>None\<close> from an error object of the client.
\<close>

definition ack ::
  "nat \<Rightarrow> kafka_error option \<Rightarrow> kafka_message option \<Rightarrow> KafkaMessageProducer \<Rightarrow> KafkaMessageProducer" where
  "ack result err msg self =
     (case err of
        Some e \<Rightarrow> self\<lparr>loop_ready := loop_ready self @ [Call_set_exception result (KafkaException e)]\<rparr>
      | None \<Rightarrow> self\<lparr>loop_ready := loop_ready self @ [Call_set_result result msg]\<rparr>)"

text \<open>\<open>KafkaMessageProducer.produce(topic, value)\<close>: the new future and the state.\<close>

definition produce :: "string \<Rightarrow> string \<Rightarrow> KafkaMessageProducer \<Rightarrow> nat \<times> KafkaMessageProducer" where
  "produce topic v self =
     (let result = next_future self;
          self1 = self\<lparr>futures := (futures self)(result := Pending), next_future := Suc result\<rparr>;
          self2 = self1\<lparr>submitted := submitted self1 @ [(topic, v, result)]\<rparr>
      in (result, self2))"

text \<open>
  The event loop running one handed-over callback: \<open>Future.set_result\<close> and
  \<open>Future.set_exception\<close> resolve a pending future and raise \<open>InvalidStateError\<close> on one
  that is already done.
\<close>

fun run_call ::
  "scheduled_call \<Rightarrow> KafkaMessageProducer \<Rightarrow> (py_exception + unit) \<times> KafkaMessageProducer" where
  "run_call (Call_set_result fut msg) self =
     (if futures self fut = Pending
      then (Inr (), self\<lparr>futures := (futures self)(fut := Finished_result msg)\<rparr>)
      else (Inl InvalidStateError, self))"
| "run_call (Call_set_exception fut e) self =
     (if futures self fut = Pending
      then (Inr (), self\<lparr>futures := (futures self)(fut := Finished_exception e)\<rparr>)
      else (Inl InvalidStateError, self))"

section \<open>Example inputs\<close>

text \<open>
  Concrete values on which the theorems below are instantiated: two exceptions, a query
  timer, a call stack as caller discovery sees it when a transaction starts, a stack whose
  frames are all ignored, an idle entity with its surroundings, and an object that has
  neither a \<open>tracker\<close> nor a \<open>stack\<close> attribute.
\<close>

definition example_TimeoutError :: py_exception where
  "example_TimeoutError =
     \<lparr>exc_cls = \<lparr>cls_name = ''asyncio.TimeoutError'',
                 cls_bases = [''Exception'', ''BaseException'', ''object'']\<rparr>,
      exc_args = ''deadline'', exc_tb = 1\<rparr>"

definition example_ValueError :: py_exception where
  "example_ValueError =
     \<lparr>exc_cls = \<lparr>cls_name = ''ValueError'',
                 cls_bases = [''Exception'', ''BaseException'', ''object'']\<rparr>,
      exc_args = ''bad value'', exc_tb = 2\<rparr>"

definition example_database :: target where
  "example_database = \<lparr>database_name = Some ''payin'', instance_name = Some ''primary''\<rparr>"

definition example_timer :: QueryTimer where
  "example_timer =
     QueryTimer_init QueryTimer_class example_database ''get_cart'' ''app.payin.repository'' None"

definition example_caller :: frame where
  "example_caller =
     Frame (Some ''app.payin.repository.cart_payment_repo'') ''create_payment''
       (Some (Frame (Some ''__main__'') ''main'' None))"

definition example_stack :: frame where
  "example_stack =
     Frame (Some ''app.commons.timing.database'') ''_discover_caller''
       (Some (Frame (Some ''app.commons.timing.database'') ''__enter__''
         (Some (Frame (Some ''contextlib'') ''enter_context''
           (Some (Frame (Some ''app.commons.tracing'') ''_start_tracker''
             (Some (Frame (Some ''app.commons.timing.database'') ''start''
               (Some (Frame (Some ''app.commons.database.client.aiopg'') ''start''
                 (Some example_caller)))))))))))"

definition example_ignored_stack :: frame where
  "example_ignored_stack =
     Frame (Some ''app.commons.timing.database'') ''_discover_caller''
       (Some (Frame (Some ''contextlib'') ''inner'' None))"

definition example_manager :: TransactionTimingManager where
  "example_manager = TransactionTimingManager_init ''transaction complete''"

definition example_state :: state where
  "example_state =
     \<lparr>tracker = Attr None, stack = Attr None, obj_database = example_database,
      timers = (\<lambda>r. example_timer), next_timer = 0, perf_counter = 100,
      current_frame = example_stack, events = []\<rparr>"

definition example_plain_object :: state where
  "example_plain_object = example_state\<lparr>tracker := Missing, stack := Missing\<rparr>"

definition example_producer :: KafkaMessageProducer where
  "example_producer =
     \<lparr>cancelled = False, futures = (\<lambda>r. Cancelled), next_future = 0, loop_ready = [],
      submitted = []\<rparr>"

section \<open>Auxiliary facts\<close>

lemmas status_defs =
  QueryStatus_success_def QueryStatus_timeout_def QueryStatus_error_def
  TransactionStatus_commit_def TransactionStatus_rollback_def TransactionStatus_error_def

lemma QueryTimer_exit_keeps_status:
  "request_status t \<noteq> [] \<Longrightarrow> request_status t \<noteq> QueryStatus_success \<Longrightarrow>
   request_status (snd (QueryTimer_exit fmt now ei t)) = request_status t"
  by (simp add: QueryTimer_exit_def BaseTimer_exit_def Let_def split: option.splits)

lemma discover_loop_find:
  "discover_loop ignores f (frame_name f) =
     (case find (\<lambda>g. \<not> ignored ignores (frame_name g)) (frames_from f) of
        Some g \<Rightarrow> (g, frame_name g)
      | None \<Rightarrow> (last (frames_from f), ''?''))"
proof (induction f rule: frames_from.induct)
  case (1 f)
  show ?case
  proof (cases "f_back f")
    case None
    then have ff: "frames_from f = [f]" by (subst frames_from.simps) simp
    from None show ?thesis
      by (subst discover_loop.simps) (simp add: ff)
  next
    case (Some b)
    have ne: "frames_from b \<noteq> []" by (subst frames_from.simps) simp
    from Some have ff: "frames_from f = f # frames_from b" by (subst frames_from.simps) simp
    from Some 1 [OF Some] ne show ?thesis
      by (subst discover_loop.simps) (simp add: ff split: option.splits)
  qed
qed










text \<open>
  On an entity that is a \<open>TrackedTransaction\<close> the error phase raises nothing, so a wrapper
  whose operation raised \<open>e\<close> ends in the state of one run of the error phase and raises
  \<open>e\<close> itself.
\<close>

lemma error_on_tracked_entity:
  "isinstance_TrackedTransaction s \<Longrightarrow> fst (error fmt self ei s) = Inr ()"
  by (simp add: error_def isinstance_TrackedTransaction_def exit_tracker_def
      process_tracker_def log_transaction_timing_def stat_transaction_timing_def Let_def
      split: attr.splits option.splits)

lemma track_start_on_tracked_entity:
  "func (if isinstance_TrackedTransaction s then snd (start self s) else s) = (Inl e, s') \<Longrightarrow>
   isinstance_TrackedTransaction s' \<Longrightarrow>
   track_start fmt self func s = (Inl e, snd (error fmt self (sys_exc_info e) s'))"
  using error_on_tracked_entity [of s' fmt self "sys_exc_info e"]
  by (auto simp: track_start_def error_and_reraise_def Let_def split: prod.splits sum.splits)

lemma track_commit_on_tracked_entity:
  "func s = (Inl e, s') \<Longrightarrow> isinstance_TrackedTransaction s' \<Longrightarrow>
   track_commit fmt self func s = (Inl e, snd (error fmt self (sys_exc_info e) s'))"
  using error_on_tracked_entity [of s' fmt self "sys_exc_info e"]
  by (auto simp: track_commit_def error_and_reraise_def Let_def split: prod.splits sum.splits)

text \<open>
  The wrappers call the error phase on whatever object they were given.  On an object
  without the attribute \<open>tracker\<close> the error phase raises \<open>AttributeError\<close>, and the
  wrapper raises that instead of the exception of the operation.
\<close>

lemma error_without_tracker:
  "tracker s = Missing \<Longrightarrow> error fmt self ei s = (Inl (AttributeError ''tracker''), s)"
  by (simp add: error_def)

section \<open>The claims\<close>

text \<open>
  Claim C1.  A timer that still has the default status \<open>success\<close> when its span ends
  leaves \<open>__exit__\<close> with status \<open>timeout\<close> when an exception was raised and the
  exception value is an instance of \<open>asyncio.TimeoutError\<close>, \<open>asyncio.CancelledError\<close>,
  \<open>concurrent.futures.TimeoutError\<close> or \<open>QueryCanceledError\<close>, with status \<open>error\<close> for
  any other exception, and with status \<open>success\<close> when no exception was raised.
\<close>

theorem QueryTimer_exit_classifies:
  assumes "request_status t = QueryStatus_success"
  shows "request_status (snd (QueryTimer_exit fmt now ei t)) =
          (case exc_type ei of
             None \<Rightarrow> QueryStatus_success
           | Some ty \<Rightarrow>
               if isinstance (exc_value ei) known_timeout_errors
               then QueryStatus_timeout else QueryStatus_error)"
  using assms
  by (simp add: QueryTimer_exit_def BaseTimer_exit_def Let_def split: option.splits)

theorem QueryTimer_exit_classifies_witness:
  "request_status example_timer = QueryStatus_success \<and>
   request_status (snd (QueryTimer_exit cls_name 7 (sys_exc_info example_TimeoutError) example_timer))
     = QueryStatus_timeout \<and>
   request_status (snd (QueryTimer_exit cls_name 7 (sys_exc_info example_ValueError) example_timer))
     = QueryStatus_error \<and>
   request_status (snd (QueryTimer_exit cls_name 7 no_exc example_timer)) = QueryStatus_success"
proof -
  have h: "request_status example_timer = QueryStatus_success"
    by (simp add: example_timer_def QueryTimer_init_def)
  show ?thesis
    using h
      QueryTimer_exit_classifies [OF h, of cls_name 7 "sys_exc_info example_TimeoutError"]
      QueryTimer_exit_classifies [OF h, of cls_name 7 "sys_exc_info example_ValueError"]
      QueryTimer_exit_classifies [OF h, of cls_name 7 no_exc]
    by (simp add: sys_exc_info_def no_exc_def isinstance_def known_timeout_errors_def
        example_TimeoutError_def example_ValueError_def)
qed

text \<open>
  Claim C2.  The status is sticky: when the status of a timer has been set to a value
  other than \<open>success\<close> (the statuses are non-empty strings), \<open>__exit__\<close> leaves it
  unchanged whatever the exception is, and only records the name of the exception type.
\<close>

theorem QueryTimer_exit_sticky:
  assumes "request_status t \<noteq> []" and "request_status t \<noteq> QueryStatus_success"
  shows "request_status (snd (QueryTimer_exit fmt now ei t)) = request_status t \<and>
         exception_name (snd (QueryTimer_exit fmt now ei t)) =
           (case exc_type ei of None \<Rightarrow> exception_name t | Some ty \<Rightarrow> fmt ty)"
  using assms
  by (simp add: QueryTimer_exit_def BaseTimer_exit_def Let_def split: option.splits)

theorem QueryTimer_exit_sticky_witness:
  "request_status (example_timer\<lparr>request_status := TransactionStatus_rollback\<rparr>) \<noteq> [] \<and>
   request_status (example_timer\<lparr>request_status := TransactionStatus_rollback\<rparr>) \<noteq> QueryStatus_success \<and>
   request_status (snd (QueryTimer_exit cls_name 7 (sys_exc_info example_TimeoutError)
       (example_timer\<lparr>request_status := TransactionStatus_rollback\<rparr>))) = TransactionStatus_rollback \<and>
   exception_name (snd (QueryTimer_exit cls_name 7 (sys_exc_info example_TimeoutError)
       (example_timer\<lparr>request_status := TransactionStatus_rollback\<rparr>))) = ''asyncio.TimeoutError''"
proof -
  have h1: "request_status (example_timer\<lparr>request_status := TransactionStatus_rollback\<rparr>) \<noteq> []"
    by (simp add: status_defs)
  have h2: "request_status (example_timer\<lparr>request_status := TransactionStatus_rollback\<rparr>)
              \<noteq> QueryStatus_success"
    by (simp add: status_defs)
  show ?thesis
    using h1 h2
      QueryTimer_exit_sticky [OF h1 h2, of cls_name 7 "sys_exc_info example_TimeoutError"]
    by (simp add: sys_exc_info_def example_TimeoutError_def)
qed

text \<open>
  Claim C3.  A \<open>TransactionTimer\<close> starts with status \<open>commit\<close> and keeps it when it is
  entered.  The guard of \<open>__exit__\<close> takes that status as already set: leaving the timer
  with any exception records the exception name and leaves the status \<open>commit\<close>, never
  \<open>timeout\<close> or \<open>error\<close>.  For any timer with a non-empty status, \<open>__exit__\<close> changes
  the status only if it was \<open>success\<close>.
\<close>

theorem TransactionTimer_exit_never_reclassifies:
  "let t0 = QueryTimer_init TransactionTimer_class db function_name module_name' ignores;
       t1 = timer_enter now0 f0 t0;
       t2 = snd (QueryTimer_exit fmt now ei t1)
   in request_status t0 = TransactionStatus_commit \<and>
      request_status t1 = TransactionStatus_commit \<and>
      request_status t2 = TransactionStatus_commit \<and>
      request_status t2 \<noteq> QueryStatus_timeout \<and>
      request_status t2 \<noteq> QueryStatus_error \<and>
      (exc_type ei = Some ty \<longrightarrow> exception_name t2 = fmt ty) \<and>
      (\<forall>t. request_status t \<noteq> [] \<and>
            request_status (snd (QueryTimer_exit fmt now ei t)) \<noteq> request_status t
            \<longrightarrow> request_status t = QueryStatus_success)"
proof -
  define t0 where "t0 = QueryTimer_init TransactionTimer_class db function_name module_name' ignores"
  define t1 where "t1 = timer_enter now0 f0 t0"
  define t2 where "t2 = snd (QueryTimer_exit fmt now ei t1)"
  have s0: "request_status t0 = TransactionStatus_commit"
    by (simp add: t0_def QueryTimer_init_def)
  have s1: "request_status t1 = TransactionStatus_commit"
    using s0
    by (simp add: t1_def t0_def timer_enter_def ExecuteTimer_enter_def BaseTimer_enter_def
        QueryTimer_init_def Let_def split: prod.splits)
  have s2: "request_status t2 = TransactionStatus_commit"
    unfolding t2_def using s1 QueryTimer_exit_keeps_status [of t1 fmt now ei]
    by (simp add: status_defs)
  have n2: "exc_type ei = Some ty \<longrightarrow> exception_name t2 = fmt ty"
    using s1
    by (simp add: t2_def QueryTimer_exit_def BaseTimer_exit_def Let_def status_defs)
  have g: "\<forall>t. request_status t \<noteq> [] \<and>
            request_status (snd (QueryTimer_exit fmt now ei t)) \<noteq> request_status t
            \<longrightarrow> request_status t = QueryStatus_success"
    using QueryTimer_exit_keeps_status by blast
  from s0 s1 s2 n2 g show ?thesis
    unfolding Let_def t0_def [symmetric] t1_def [symmetric] t2_def [symmetric]
    by (simp add: status_defs)
qed

theorem TransactionTimer_exit_never_reclassifies_witness:
  "request_status
     (snd (QueryTimer_exit cls_name 7 (sys_exc_info example_TimeoutError)
        (timer_enter 3 example_stack
           (QueryTimer_init TransactionTimer_class example_database [] [] None))))
     = TransactionStatus_commit \<and>
   exception_name
     (snd (QueryTimer_exit cls_name 7 (sys_exc_info example_TimeoutError)
        (timer_enter 3 example_stack
           (QueryTimer_init TransactionTimer_class example_database [] [] None))))
     = ''asyncio.TimeoutError'' \<and>
   request_status example_timer \<noteq> [] \<and>
   request_status (snd (QueryTimer_exit cls_name 7 (sys_exc_info example_TimeoutError) example_timer))
     \<noteq> request_status example_timer \<and>
   request_status example_timer = QueryStatus_success"
proof -
  have ty: "exc_type (sys_exc_info example_TimeoutError) = Some (exc_cls example_TimeoutError)"
    by (simp add: sys_exc_info_def)
  have h1: "request_status example_timer \<noteq> []"
    by (simp add: example_timer_def QueryTimer_init_def status_defs)
  have h2: "request_status (snd (QueryTimer_exit cls_name 7 (sys_exc_info example_TimeoutError) example_timer))
     \<noteq> request_status example_timer"
    by (simp add: example_timer_def QueryTimer_init_def status_defs QueryTimer_exit_def
        BaseTimer_exit_def sys_exc_info_def example_TimeoutError_def isinstance_def
        known_timeout_errors_def)
  show ?thesis
    using ty h1 h2
      TransactionTimer_exit_never_reclassifies [of example_database "[]" "[]" None 3 example_stack
        cls_name 7 "sys_exc_info example_TimeoutError" "exc_cls example_TimeoutError"]
    by (simp add: Let_def example_TimeoutError_def)
qed




text \<open>
  Claim C5.  A wrapper whose operation raises is to run the error phase once and raise
  the exception of the operation.  The wrappers of \<open>track_start\<close> and \<open>track_commit\<close> test
  \<open>isinstance(obj, TrackedTransaction)\<close> before \<open>start\<close> and \<open>commit\<close>, but call the error
  phase without that test.  On an object that has no \<open>tracker\<close> attribute, with an
  operation that raises \<open>ValueError\<close>, both wrappers raise \<open>AttributeError\<close> instead of
  the \<open>ValueError\<close>.
\<close>

theorem track_wrappers_replace_exception:
  "\<not> isinstance_TrackedTransaction example_plain_object \<and>
   track_start cls_name example_manager (\<lambda>s. (Inl example_ValueError, s)) example_plain_object
     = (Inl (AttributeError ''tracker'') :: py_exception + unit, example_plain_object) \<and>
   track_commit cls_name example_manager (\<lambda>s. (Inl example_ValueError, s)) example_plain_object
     = (Inl (AttributeError ''tracker'') :: py_exception + unit, example_plain_object) \<and>
   AttributeError ''tracker'' \<noteq> example_ValueError"
  by (simp add: track_start_def track_commit_def error_and_reraise_def error_def
      isinstance_TrackedTransaction_def example_plain_object_def AttributeError_def
      example_ValueError_def)

text \<open>
  Claim C6.  \<open>produce\<close> returns a fresh pending future and hands the client a callback
  for it.  The callback, called without an error, hands the event loop exactly one call
  of \<open>set_result\<close> with the message; called with an error, exactly one call of
  \<open>set_exception\<close> with the \<open>KafkaException\<close> made from the error.  The callback itself
  leaves every future as it is; when the loop runs the handed-over call on the pending
  future, the future is fulfilled with the message or rejected with the exception.
\<close>

theorem ack_schedules_one_resolution:
  "loop_ready (ack result None msg self) = loop_ready self @ [Call_set_result result msg] \<and>
   loop_ready (ack result (Some err) msg self) =
     loop_ready self @ [Call_set_exception result (KafkaException err)] \<and>
   length (loop_ready (ack result e msg self)) = Suc (length (loop_ready self)) \<and>
   futures (ack result e msg self) = futures self \<and>
   (futures self result = Pending \<longrightarrow>
      futures (snd (run_call (Call_set_result result msg) (ack result None msg self))) result
        = Finished_result msg \<and>
      futures (snd (run_call (Call_set_exception result (KafkaException err))
                      (ack result (Some err) msg self))) result
        = Finished_exception (KafkaException err)) \<and>
   fst (produce topic v self0) = next_future self0 \<and>
   futures (snd (produce topic v self0)) (fst (produce topic v self0)) = Pending \<and>
   submitted (snd (produce topic v self0)) =
     submitted self0 @ [(topic, v, fst (produce topic v self0))]"
  by (simp add: ack_def produce_def Let_def split: option.splits)

theorem ack_schedules_one_resolution_witness:
  "futures (snd (produce ''t'' ''v'' example_producer)) 0 = Pending \<and>
   loop_ready (ack 0 None (Some ''m'') (snd (produce ''t'' ''v'' example_producer)))
     = [Call_set_result 0 (Some ''m'')] \<and>
   futures (snd (run_call (Call_set_result 0 (Some ''m''))
              (ack 0 None (Some ''m'') (snd (produce ''t'' ''v'' example_producer))))) 0
     = Finished_result (Some ''m'') \<and>
   futures (snd (run_call (Call_set_exception 0 (KafkaException ''broker down''))
              (ack 0 (Some ''broker down'') (Some ''m'') (snd (produce ''t'' ''v'' example_producer))))) 0
     = Finished_exception (KafkaException ''broker down'')"
proof -
  have h: "futures (snd (produce ''t'' ''v'' example_producer)) 0 = Pending"
    by (simp add: produce_def example_producer_def Let_def)
  have l: "loop_ready (snd (produce ''t'' ''v'' example_producer)) = []"
    by (simp add: produce_def example_producer_def Let_def)
  show ?thesis
    using h l
      ack_schedules_one_resolution
        [where result = 0 and msg = "Some ''m''" and err = "''broker down''"
           and self = "snd (produce ''t'' ''v'' example_producer)"]
    by simp
qed

text \<open>
  Claim C7.  Caller discovery returns the first frame, walking outward from the current
  frame, whose module name does not start with an ignored prefix, together with that
  name; when every frame up to the stack root is ignored, it returns the root frame with
  the name \<open>"?"\<close>.  The function is total: the walk ends at the stack root.
\<close>

theorem discover_caller_first_not_ignored:
  "discover_caller additional f0 =
     (case find (\<lambda>g. \<not> ignored (ignores_of additional) (frame_name g)) (frames_from f0) of
        Some g \<Rightarrow> (g, frame_name g)
      | None \<Rightarrow> (last (frames_from f0), ''?''))"
  by (simp add: discover_caller_def discover_loop_find)

theorem discover_caller_first_not_ignored_witness:
  "discover_caller (Some [''app.commons.database'']) example_stack
     = (example_caller, ''app.payin.repository.cart_payment_repo'') \<and>
   discover_caller None example_ignored_stack = (Frame (Some ''contextlib'') ''inner'' None, ''?'')"
proof -
  have e1: "find (\<lambda>g. \<not> ignored (ignores_of (Some [''app.commons.database''])) (frame_name g))
              (frames_from example_stack) = Some example_caller"
    by (simp add: example_stack_def example_caller_def frames_from.simps ignored_def
        ignores_of_def this_module_def frame_name_def)
  have n1: "frame_name example_caller = ''app.payin.repository.cart_payment_repo''"
    by (simp add: example_caller_def frame_name_def)
  have e2: "find (\<lambda>g. \<not> ignored (ignores_of None) (frame_name g))
              (frames_from example_ignored_stack) = None"
    by (simp add: example_ignored_stack_def frames_from.simps ignored_def
        ignores_of_def this_module_def frame_name_def)
  have l2: "last (frames_from example_ignored_stack) = Frame (Some ''contextlib'') ''inner'' None"
    by (simp add: example_ignored_stack_def frames_from.simps)
  show ?thesis
    using discover_caller_first_not_ignored [of "Some [''app.commons.database'']" example_stack]
      discover_caller_first_not_ignored [of None example_ignored_stack]
    by (simp add: e1 n1 e2 l2)
qed

text \<open>
  Claim C8.  On an idle entity, whose \<open>tracker\<close> and \<open>stack\<close> are both \<open>None\<close>, the
  phases \<open>commit\<close>, \<open>rollback\<close> and \<open>error\<close> raise nothing and leave the state unchanged.
\<close>

theorem idle_phases_noop:
  assumes "tracker s = Attr None" and "stack s = Attr None"
  shows "commit fmt self s = (Inr (), s) \<and> rollback fmt self ei s = (Inr (), s) \<and>
         error fmt self ei s = (Inr (), s)"
  using assms by (simp add: commit_def rollback_def error_def)

theorem idle_phases_noop_witness:
  "tracker example_state = Attr None \<and> stack example_state = Attr None \<and>
   commit cls_name example_manager example_state = (Inr (), example_state) \<and>
   rollback cls_name example_manager (sys_exc_info example_ValueError) example_state
     = (Inr (), example_state) \<and>
   error cls_name example_manager (sys_exc_info example_ValueError) example_state
     = (Inr (), example_state)"
proof -
  have h1: "tracker example_state = Attr None" by (simp add: example_state_def)
  have h2: "stack example_state = Attr None" by (simp add: example_state_def)
  show ?thesis
    using h1 h2 idle_phases_noop [OF h1 h2, of cls_name example_manager "sys_exc_info example_ValueError"]
    by simp
qed

text \<open>
  Claim C9.  \<open>QueryTimer.__exit__\<close> returns \<open>False\<close> on every path, so it never
  suppresses the exception of the wrapped operation.
\<close>

theorem QueryTimer_exit_not_handled:
  "fst (QueryTimer_exit fmt now ei t) = False"
  by (simp add: QueryTimer_exit_def Let_def split: option.splits)

theorem QueryTimer_exit_not_handled_witness:
  "fst (QueryTimer_exit cls_name 7 (sys_exc_info example_ValueError) example_timer) = False"
  using QueryTimer_exit_not_handled [of cls_name 7 "sys_exc_info example_ValueError" example_timer]
  by simp

end
